theory Spec2Isabelle
  imports Complex_Main "HOL-Library.Log_Nat"
begin

section \<open>JavaScript numbers\<close>

text \<open>
  Every numeric quantity of \<^verbatim>\<open>EnergyCalculator.tsx\<close> is a JavaScript
  \<^verbatim>\<open>number\<close>. The model keeps the four kinds of value such a number can be: a finite
  value, the two infinities and NaN. Finite values are exact reals: rounding to the
  nearest double, overflow of a finite operation and the sign of zero are abstracted.
  The arithmetic follows IEEE 754 on the special values; in particular a division by
  zero does not fail, it yields an infinity or NaN. This model states the properties
  that do not depend on rounding; the properties that do are stated on the doubles of
  the section on double-precision arithmetic.
\<close>

datatype number = Fin real | PInf | NInf | NaN

fun isFinite :: "number \<Rightarrow> bool" where
  "isFinite (Fin x) = True"
| "isFinite PInf = False"
| "isFinite NInf = False"
| "isFinite NaN = False"

fun jneg :: "number \<Rightarrow> number" where
  "jneg (Fin x) = Fin (- x)"
| "jneg PInf = NInf"
| "jneg NInf = PInf"
| "jneg NaN = NaN"

text \<open>\<^verbatim>\<open>a + b\<close>\<close>

fun jadd :: "number \<Rightarrow> number \<Rightarrow> number" where
  "jadd (Fin x) (Fin y) = Fin (x + y)"
| "jadd NaN b = NaN"
| "jadd a NaN = NaN"
| "jadd PInf NInf = NaN"
| "jadd NInf PInf = NaN"
| "jadd PInf b = PInf"
| "jadd a PInf = PInf"
| "jadd NInf b = NInf"
| "jadd a NInf = NInf"

text \<open>\<^verbatim>\<open>a - b\<close>\<close>

definition jsub :: "number \<Rightarrow> number \<Rightarrow> number" where
  "jsub a b = jadd a (jneg b)"

text \<open>The infinity of a given sign.\<close>

definition inf_of_sign :: "bool \<Rightarrow> number" where
  "inf_of_sign positive = (if positive then PInf else NInf)"

text \<open>\<^verbatim>\<open>a * b\<close>: infinity times zero is NaN.\<close>

fun jmul :: "number \<Rightarrow> number \<Rightarrow> number" where
  "jmul (Fin x) (Fin y) = Fin (x * y)"
| "jmul NaN b = NaN"
| "jmul a NaN = NaN"
| "jmul PInf (Fin y) = (if y = 0 then NaN else inf_of_sign (0 < y))"
| "jmul NInf (Fin y) = (if y = 0 then NaN else inf_of_sign (y < 0))"
| "jmul (Fin x) PInf = (if x = 0 then NaN else inf_of_sign (0 < x))"
| "jmul (Fin x) NInf = (if x = 0 then NaN else inf_of_sign (x < 0))"
| "jmul PInf PInf = PInf"
| "jmul NInf NInf = PInf"
| "jmul PInf NInf = NInf"
| "jmul NInf PInf = NInf"

text \<open>
  \<^verbatim>\<open>a / b\<close>: a non-zero finite value over zero is an infinity, zero over zero and
  infinity over infinity are NaN, a finite value over an infinity is zero.
\<close>

fun jdiv :: "number \<Rightarrow> number \<Rightarrow> number" where
  "jdiv (Fin x) (Fin y) =
     (if y = 0 then (if x = 0 then NaN else inf_of_sign (0 < x)) else Fin (x / y))"
| "jdiv NaN b = NaN"
| "jdiv a NaN = NaN"
| "jdiv (Fin x) PInf = Fin 0"
| "jdiv (Fin x) NInf = Fin 0"
| "jdiv PInf (Fin y) = inf_of_sign (0 \<le> y)"
| "jdiv NInf (Fin y) = inf_of_sign (y < 0)"
| "jdiv PInf b = NaN"
| "jdiv NInf b = NaN"


text \<open>
  \<^verbatim>\<open>x || d\<close> on a number \<open>x\<close>: the falsy numbers are zero and NaN.
\<close>

definition truthy :: "number \<Rightarrow> bool" where
  "truthy x = (x \<noteq> NaN \<and> x \<noteq> Fin 0)"

definition or_else :: "number \<Rightarrow> number \<Rightarrow> number" where
  "or_else x d = (if truthy x then x else d)"

subsection \<open>The builtin \<^verbatim>\<open>parseFloat\<close>\<close>

text \<open>
  \<^verbatim>\<open>parseFloat\<close> skips leading white space and reads the longest prefix that is a
  decimal literal: an optional sign, then \<^verbatim>\<open>Infinity\<close> or digits with an optional
  fraction and an optional exponent. Without such a prefix the result is NaN; it never
  raises. A string is the list of the bytes of its UTF-8 encoding, so the white space
  and line terminator characters are one, two or three bytes long.
\<close>

text \<open>TAB, LF, VT, FF, CR and SPACE.\<close>

definition isWhiteSpace1 :: "char \<Rightarrow> bool" where
  "isWhiteSpace1 a = ((of_char a :: nat) \<in> {9, 10, 11, 12, 13, 32})"

text \<open>U+00A0, the no-break space.\<close>

definition isWhiteSpace2 :: "char \<Rightarrow> char \<Rightarrow> bool" where
  "isWhiteSpace2 a b = ((of_char a :: nat) = 194 \<and> (of_char b :: nat) = 160)"

text \<open>
  U+1680, U+2000 to U+200A, U+2028, U+2029, U+202F, U+205F, U+3000 and U+FEFF.
\<close>

definition isWhiteSpace3 :: "char \<Rightarrow> char \<Rightarrow> char \<Rightarrow> bool" where
  "isWhiteSpace3 a b c =
     (let x = (of_char a :: nat); y = (of_char b :: nat); z = (of_char c :: nat)
      in (x = 225 \<and> y = 154 \<and> z = 128)
         \<or> (x = 226 \<and> y = 128 \<and> ((128 \<le> z \<and> z \<le> 138) \<or> z = 168 \<or> z = 169 \<or> z = 175))
         \<or> (x = 226 \<and> y = 129 \<and> z = 159)
         \<or> (x = 227 \<and> y = 128 \<and> z = 128)
         \<or> (x = 239 \<and> y = 187 \<and> z = 191))"

fun skipWhiteSpace :: "string \<Rightarrow> string" where
  "skipWhiteSpace (a # b # c # r) =
     (if isWhiteSpace1 a then skipWhiteSpace (b # c # r)
      else if isWhiteSpace2 a b then skipWhiteSpace (c # r)
      else if isWhiteSpace3 a b c then skipWhiteSpace r
      else a # b # c # r)"
| "skipWhiteSpace [a, b] =
     (if isWhiteSpace1 a then skipWhiteSpace [b]
      else if isWhiteSpace2 a b then []
      else [a, b])"
| "skipWhiteSpace [a] = (if isWhiteSpace1 a then [] else [a])"
| "skipWhiteSpace [] = []"

definition isDigit :: "char \<Rightarrow> bool" where
  "isDigit c = (48 \<le> (of_char c :: nat) \<and> (of_char c :: nat) \<le> 57)"

definition digitsValue :: "string \<Rightarrow> nat" where
  "digitsValue ds = foldl (\<lambda>acc c. acc * 10 + (of_char c - 48)) 0 ds"

definition pow10 :: "int \<Rightarrow> real" where
  "pow10 e = (if 0 \<le> e then 10 ^ nat e else 1 / 10 ^ nat (- e))"

text \<open>The exponent part: taken only when at least one digit follows the indicator.\<close>

definition signedInteger :: "string \<Rightarrow> int option" where
  "signedInteger s =
     (let (sgn, r) = (case s of
                        c # t \<Rightarrow> if c = CHR ''+'' then (1, t)
                                  else if c = CHR ''-'' then (- 1, t) else (1, s)
                      | [] \<Rightarrow> (1, s));
          ds = takeWhile isDigit r
      in if ds = [] then None else Some (sgn * int (digitsValue ds)))"

definition exponentPart :: "string \<Rightarrow> int" where
  "exponentPart s =
     (case s of
        c # t \<Rightarrow> if c = CHR ''e'' \<or> c = CHR ''E''
                  then (case signedInteger t of Some e \<Rightarrow> e | None \<Rightarrow> 0)
                  else 0
      | [] \<Rightarrow> 0)"

definition strUnsignedDecimalLiteral :: "string \<Rightarrow> number" where
  "strUnsignedDecimalLiteral s =
     (if take 8 s = ''Infinity'' then PInf
      else
        let ip = takeWhile isDigit s;
            r1 = dropWhile isDigit s;
            (fp, r2) = (case r1 of
                          c # t \<Rightarrow> if c = CHR ''.''
                                    then (takeWhile isDigit t, dropWhile isDigit t)
                                    else ([], r1)
                        | [] \<Rightarrow> ([], r1))
        in if ip = [] \<and> fp = [] then NaN
           else Fin ((real (digitsValue ip) + real (digitsValue fp) / 10 ^ length fp)
                     * pow10 (exponentPart r2)))"

definition parseFloat :: "string \<Rightarrow> number" where
  "parseFloat s =
     (let t = skipWhiteSpace s
      in case t of
           c # r \<Rightarrow> if c = CHR ''-'' then jneg (strUnsignedDecimalLiteral r)
                     else if c = CHR ''+'' then strUnsignedDecimalLiteral r
                     else strUnsignedDecimalLiteral t
         | [] \<Rightarrow> NaN)"

section \<open>The data of the calculator\<close>

datatype HeatingSystem = Oil_Furnace | Electric_Baseboards | Gas_Furnace

datatype CoolingSystem = Central_AC | Window_AC | No_Cooling

record MonthlyData =
  name :: string
  currentTotal :: number
  heatPumpTotal :: number
  savings :: number

record Savings =
  heating :: number
  cooling :: number
  total :: number

text \<open>The state variables the user sets: the inputs of the computation.\<close>

record Inputs =
  homeSize :: number
  heatingSystem :: HeatingSystem
  coolingSystem :: CoolingSystem
  electricityRate :: number
  oilRate :: number
  gasRate :: number
  currentSEER :: number
  useManualInput :: bool
  manualHeatingCost :: string
  manualCoolingCost :: string

text \<open>The state variables for calculated values: the result of the computation.\<close>

record Result =
  currentHeatingCost :: number
  currentCoolingCost :: number
  heatPumpHeatingCost :: number
  heatPumpCoolingCost :: number
  monthlySavings :: Savings
  annualSavings :: Savings
  monthlyData :: "MonthlyData list"

subsection \<open>Constants\<close>

definition DEFAULT_RATES_electricity :: number where
  "DEFAULT_RATES_electricity = Fin 0.15"

definition DEFAULT_RATES_oil :: number where
  "DEFAULT_RATES_oil = Fin 1.20"

definition DEFAULT_RATES_gas :: number where
  "DEFAULT_RATES_gas = Fin 1.50"

fun SYSTEM_EFFICIENCY_heating :: "HeatingSystem \<Rightarrow> number" where
  "SYSTEM_EFFICIENCY_heating Oil_Furnace = Fin 0.80"
| "SYSTEM_EFFICIENCY_heating Electric_Baseboards = Fin 1.0"
| "SYSTEM_EFFICIENCY_heating Gas_Furnace = Fin 0.85"

fun SYSTEM_EFFICIENCY_cooling_base :: "CoolingSystem \<Rightarrow> number" where
  "SYSTEM_EFFICIENCY_cooling_base Central_AC = Fin 10"
| "SYSTEM_EFFICIENCY_cooling_base Window_AC = Fin 8"
| "SYSTEM_EFFICIENCY_cooling_base No_Cooling = Fin 0"

definition SYSTEM_EFFICIENCY_heatPump_heating :: number where
  "SYSTEM_EFFICIENCY_heatPump_heating = Fin 3.5"

definition SYSTEM_EFFICIENCY_heatPump_cooling :: number where
  "SYSTEM_EFFICIENCY_heatPump_cooling = Fin 18"

definition ENERGY_CONSUMPTION_heating :: number where
  "ENERGY_CONSUMPTION_heating = Fin 40"

definition ENERGY_CONSUMPTION_cooling :: number where
  "ENERGY_CONSUMPTION_cooling = Fin 20"

definition SEASON_HOURS_heating :: number where
  "SEASON_HOURS_heating = Fin 1200"

definition SEASON_HOURS_cooling :: number where
  "SEASON_HOURS_cooling = Fin 800"

section \<open>The computation\<close>

subsection \<open>\<^verbatim>\<open>updateCosts\<close>\<close>

definition months :: "string list" where
  "months = [''Jan'', ''Feb'', ''Mar'', ''Apr'', ''May'', ''Jun'',
             ''Jul'', ''Aug'', ''Sep'', ''Oct'', ''Nov'', ''Dec'']"

definition heatingDistribution :: "number list" where
  "heatingDistribution =
     [Fin 0.18, Fin 0.16, Fin 0.12, Fin 0.08, Fin 0.04, Fin 0.01,
      Fin 0.01, Fin 0.01, Fin 0.03, Fin 0.07, Fin 0.12, Fin 0.17]"

definition coolingDistribution :: "number list" where
  "coolingDistribution =
     [Fin 0.01, Fin 0.01, Fin 0.02, Fin 0.05, Fin 0.10, Fin 0.18,
      Fin 0.22, Fin 0.20, Fin 0.12, Fin 0.06, Fin 0.02, Fin 0.01]"

text \<open>
  Reading a number array at an index: out of range JavaScript gives
  \<^verbatim>\<open>undefined\<close>, which arithmetic turns into NaN.
\<close>

definition at_index :: "number list \<Rightarrow> nat \<Rightarrow> number" where
  "at_index xs i = (if i < length xs then xs ! i else NaN)"

text \<open>The callback of \<^verbatim>\<open>months.map\<close>, on the month and its index.\<close>

definition monthRecord ::
  "number \<Rightarrow> number \<Rightarrow> number \<Rightarrow> number \<Rightarrow> string \<Rightarrow> nat \<Rightarrow> MonthlyData" where
  "monthRecord currentHeating currentCooling heatPumpHeating heatPumpCooling month i =
     (let currentMonthHeating = jmul currentHeating (at_index heatingDistribution i);
          currentMonthCooling = jmul currentCooling (at_index coolingDistribution i);
          heatPumpMonthHeating = jmul heatPumpHeating (at_index heatingDistribution i);
          heatPumpMonthCooling = jmul heatPumpCooling (at_index coolingDistribution i)
      in \<lparr> name = month,
           currentTotal = jadd currentMonthHeating currentMonthCooling,
           heatPumpTotal = jadd heatPumpMonthHeating heatPumpMonthCooling,
           savings = jsub (jadd currentMonthHeating currentMonthCooling)
                          (jadd heatPumpMonthHeating heatPumpMonthCooling) \<rparr>)"

text \<open>
  \<^verbatim>\<open>updateCosts\<close> calls the seven setters of the calculated values; the model
  returns the seven values set.
\<close>

definition updateCosts :: "number \<Rightarrow> number \<Rightarrow> number \<Rightarrow> number \<Rightarrow> Result" where
  "updateCosts currentHeating currentCooling heatPumpHeating heatPumpCooling =
     (let heatingSavings = jsub currentHeating heatPumpHeating;
          coolingSavings = jsub currentCooling heatPumpCooling;
          totalSavings = jadd heatingSavings coolingSavings;
          data = map (\<lambda>(i, month).
                        monthRecord currentHeating currentCooling
                                    heatPumpHeating heatPumpCooling month i)
                     (enumerate 0 months)
      in \<lparr> currentHeatingCost = currentHeating,
           currentCoolingCost = currentCooling,
           heatPumpHeatingCost = heatPumpHeating,
           heatPumpCoolingCost = heatPumpCooling,
           monthlySavings = \<lparr> heating = jdiv heatingSavings (Fin 12),
                              cooling = jdiv coolingSavings (Fin 12),
                              total = jdiv totalSavings (Fin 12) \<rparr>,
           annualSavings = \<lparr> heating = heatingSavings,
                             cooling = coolingSavings,
                             total = totalSavings \<rparr>,
           monthlyData = data \<rparr>)"

subsection \<open>The effect that recomputes the costs\<close>

text \<open>The manual branch of the effect.\<close>

definition manualCosts :: "Inputs \<Rightarrow> Result" where
  "manualCosts inp =
     (let currentHeating = or_else (parseFloat (manualHeatingCost inp)) (Fin 0);
          currentCooling = or_else (parseFloat (manualCoolingCost inp)) (Fin 0);
          heatPumpHeating =
            jmul currentHeating (jdiv (Fin 1) SYSTEM_EFFICIENCY_heatPump_heating);
          heatPumpCooling =
            (if coolingSystem inp \<noteq> No_Cooling
             then jmul currentCooling
                       (jdiv (currentSEER inp) SYSTEM_EFFICIENCY_heatPump_cooling)
             else Fin 0)
      in updateCosts currentHeating currentCooling heatPumpHeating heatPumpCooling)"

text \<open>The branch that computes from the home size and the system efficiencies.\<close>

definition computedCosts :: "Inputs \<Rightarrow> Result" where
  "computedCosts inp =
     (let heatingBTU = jmul (homeSize inp) ENERGY_CONSUMPTION_heating;
          heatingCost =
            (case heatingSystem inp of
               Oil_Furnace \<Rightarrow>
                 (let oilLiters =
                        jdiv (jmul heatingBTU SEASON_HOURS_heating)
                             (jmul (Fin 36000) (SYSTEM_EFFICIENCY_heating (heatingSystem inp)))
                  in jmul oilLiters (oilRate inp))
             | Electric_Baseboards \<Rightarrow>
                 (let kWh =
                        jdiv (jmul heatingBTU SEASON_HOURS_heating)
                             (jmul (Fin 3412) (SYSTEM_EFFICIENCY_heating (heatingSystem inp)))
                  in jmul kWh (electricityRate inp))
             | Gas_Furnace \<Rightarrow>
                 (let gasVolume =
                        jdiv (jmul heatingBTU SEASON_HOURS_heating)
                             (jmul (Fin 35300) (SYSTEM_EFFICIENCY_heating (heatingSystem inp)))
                  in jmul gasVolume (gasRate inp)));
          coolingCost =
            (if coolingSystem inp \<noteq> No_Cooling
             then (let coolingBTU = jmul (homeSize inp) ENERGY_CONSUMPTION_cooling;
                       kWh = jdiv (jmul coolingBTU SEASON_HOURS_cooling)
                                  (jmul (Fin 3412) (jdiv (currentSEER inp) (Fin 10)))
                   in jmul kWh (electricityRate inp))
             else Fin 0);
          heatPumpHeatingKWh =
            jdiv (jmul (jmul (homeSize inp) ENERGY_CONSUMPTION_heating) SEASON_HOURS_heating)
                 (jmul (Fin 3412) SYSTEM_EFFICIENCY_heatPump_heating);
          heatPumpHeatingCost' = jmul heatPumpHeatingKWh (electricityRate inp);
          heatPumpCoolingCost' =
            (if coolingSystem inp \<noteq> No_Cooling
             then (let heatPumpCoolingKWh =
                         jdiv (jmul (jmul (homeSize inp) ENERGY_CONSUMPTION_cooling)
                                    SEASON_HOURS_cooling)
                              (jmul (Fin 3412)
                                    (jdiv SYSTEM_EFFICIENCY_heatPump_cooling (Fin 10)))
                   in jmul heatPumpCoolingKWh (electricityRate inp))
             else Fin 0)
      in updateCosts heatingCost coolingCost heatPumpHeatingCost' heatPumpCoolingCost')"

text \<open>The body of the effect: from the inputs to the values it sets.\<close>

definition calculateCosts :: "Inputs \<Rightarrow> Result" where
  "calculateCosts inp =
     (if useManualInput inp then manualCosts inp else computedCosts inp)"

section \<open>Double-precision arithmetic\<close>

text \<open>
  The numbers of the program are IEEE 754 binary64 values. The type \<open>double\<close> keeps
  them as they are: a sign and a magnitude for the finite values (so that zero has a
  sign), the two infinities and NaN. Every operation computes the exact result and
  rounds it to the nearest double, ties to even, with gradual underflow and with
  overflow to infinity. A literal of the source and a parsed string are rounded in the
  same way.
\<close>

datatype double = Dbl bool real | DInf bool | DNaN

text \<open>The binade of a positive real: the exponent \<open>e\<close> with \<open>2^e \<le> m < 2^(e+1)\<close>.\<close>

definition binade :: "real \<Rightarrow> int" where
  "binade m = (if 1 \<le> m then bitlen \<lfloor>m\<rfloor> - 1 else - bitlen (\<lceil>1 / m\<rceil> - 1))"

text \<open>The nearest integer, ties to the even one.\<close>

definition round_even :: "real \<Rightarrow> int" where
  "round_even x =
     (let f = \<lfloor>x\<rfloor>; d = x - of_int f
      in if d < 1 / 2 then f else if 1 / 2 < d then f + 1 else if even f then f else f + 1)"

text \<open>
  The spacing of the doubles around a positive real: 52 fraction bits below the
  binade, and the spacing of the subnormal numbers below \<open>2^-1022\<close>.
\<close>

definition ulp :: "real \<Rightarrow> real" where
  "ulp m = 2 powi (max (binade m) (- 1022) - 52)"

definition round_mag :: "real \<Rightarrow> real" where
  "round_mag m = (if m = 0 then 0 else of_int (round_even (m / ulp m)) * ulp m)"

text \<open>Rounding a magnitude with a sign: a rounded magnitude of \<open>2^1024\<close> or more overflows.\<close>

definition rnd :: "bool \<Rightarrow> real \<Rightarrow> double" where
  "rnd s m = (if 2 ^ 1024 \<le> round_mag m then DInf s else Dbl s (round_mag m))"

text \<open>The double of a number written in the exact model, as a literal of the source is read.\<close>

fun toDouble :: "number \<Rightarrow> double" where
  "toDouble (Fin x) = rnd (x < 0) \<bar>x\<bar>"
| "toDouble PInf = DInf False"
| "toDouble NInf = DInf True"
| "toDouble NaN = DNaN"

fun isFinite64 :: "double \<Rightarrow> bool" where
  "isFinite64 (Dbl s m) = True"
| "isFinite64 (DInf s) = False"
| "isFinite64 DNaN = False"

fun isZero64 :: "double \<Rightarrow> bool" where
  "isZero64 (Dbl s m) = (m = 0)"
| "isZero64 (DInf s) = False"
| "isZero64 DNaN = False"

text \<open>\<^verbatim>\<open>a * b\<close>: the sign is the exclusive or of the signs.\<close>

fun dmul :: "double \<Rightarrow> double \<Rightarrow> double" where
  "dmul (Dbl s x) (Dbl t y) = rnd (s \<noteq> t) (x * y)"
| "dmul DNaN b = DNaN"
| "dmul a DNaN = DNaN"
| "dmul (DInf s) (Dbl t y) = (if y = 0 then DNaN else DInf (s \<noteq> t))"
| "dmul (Dbl s x) (DInf t) = (if x = 0 then DNaN else DInf (s \<noteq> t))"
| "dmul (DInf s) (DInf t) = DInf (s \<noteq> t)"

text \<open>\<^verbatim>\<open>a / b\<close>: dividing by a zero of either sign gives an infinity, or NaN for a zero.\<close>

fun ddiv :: "double \<Rightarrow> double \<Rightarrow> double" where
  "ddiv (Dbl s x) (Dbl t y) =
     (if y = 0 then (if x = 0 then DNaN else DInf (s \<noteq> t)) else rnd (s \<noteq> t) (x / y))"
| "ddiv DNaN b = DNaN"
| "ddiv a DNaN = DNaN"
| "ddiv (Dbl s x) (DInf t) = Dbl (s \<noteq> t) 0"
| "ddiv (DInf s) (Dbl t y) = DInf (s \<noteq> t)"
| "ddiv (DInf s) (DInf t) = DNaN"





text \<open>\<^verbatim>\<open>x || d\<close>: the falsy doubles are the two zeros and NaN.\<close>

definition truthy64 :: "double \<Rightarrow> bool" where
  "truthy64 x = (x \<noteq> DNaN \<and> \<not> isZero64 x)"

definition or_else64 :: "double \<Rightarrow> double \<Rightarrow> double" where
  "or_else64 x d = (if truthy64 x then x else d)"

text \<open>
  \<^verbatim>\<open>parseFloat\<close> in doubles: the sign is read first, so that \<^verbatim>\<open>-0\<close> is the
  negative zero, and the value of the literal is rounded.
\<close>

definition parseFloat64 :: "string \<Rightarrow> double" where
  "parseFloat64 s =
     (let t = skipWhiteSpace s;
          (neg, r) = (case t of
                        c # u \<Rightarrow> if c = CHR ''-'' then (True, u)
                                  else if c = CHR ''+'' then (False, u)
                                  else (False, t)
                      | [] \<Rightarrow> (False, t))
      in case strUnsignedDecimalLiteral r of
           Fin x \<Rightarrow> rnd neg x
         | PInf \<Rightarrow> DInf neg
         | NInf \<Rightarrow> DNaN
         | NaN \<Rightarrow> DNaN)"

subsection \<open>The effect in doubles\<close>

text \<open>The input state variables, as the doubles and strings they hold.\<close>

record Inputs64 =
  homeSize64 :: double
  heatingSystem64 :: HeatingSystem
  coolingSystem64 :: CoolingSystem
  electricityRate64 :: double
  oilRate64 :: double
  gasRate64 :: double
  currentSEER64 :: double
  useManualInput64 :: bool
  manualHeatingCost64 :: string
  manualCoolingCost64 :: string

text \<open>
  The four costs that a branch of the effect passes to \<^verbatim>\<open>updateCosts\<close>, which
  stores them unchanged as the four annual cost figures.
\<close>

record Costs64 =
  currentHeating64 :: double
  currentCooling64 :: double
  heatPumpHeating64 :: double
  heatPumpCooling64 :: double

definition manualCosts64 :: "Inputs64 \<Rightarrow> Costs64" where
  "manualCosts64 inp =
     (let currentHeating = or_else64 (parseFloat64 (manualHeatingCost64 inp)) (toDouble (Fin 0));
          currentCooling = or_else64 (parseFloat64 (manualCoolingCost64 inp)) (toDouble (Fin 0));
          heatPumpHeating =
            dmul currentHeating
                 (ddiv (toDouble (Fin 1)) (toDouble SYSTEM_EFFICIENCY_heatPump_heating));
          heatPumpCooling =
            (if coolingSystem64 inp \<noteq> No_Cooling
             then dmul currentCooling
                       (ddiv (currentSEER64 inp) (toDouble SYSTEM_EFFICIENCY_heatPump_cooling))
             else toDouble (Fin 0))
      in \<lparr> currentHeating64 = currentHeating,
           currentCooling64 = currentCooling,
           heatPumpHeating64 = heatPumpHeating,
           heatPumpCooling64 = heatPumpCooling \<rparr>)"

definition computedCosts64 :: "Inputs64 \<Rightarrow> Costs64" where
  "computedCosts64 inp =
     (let heatingBTU = dmul (homeSize64 inp) (toDouble ENERGY_CONSUMPTION_heating);
          heatingCost =
            (case heatingSystem64 inp of
               Oil_Furnace \<Rightarrow>
                 (let oilLiters =
                        ddiv (dmul heatingBTU (toDouble SEASON_HOURS_heating))
                             (dmul (toDouble (Fin 36000))
                                   (toDouble (SYSTEM_EFFICIENCY_heating (heatingSystem64 inp))))
                  in dmul oilLiters (oilRate64 inp))
             | Electric_Baseboards \<Rightarrow>
                 (let kWh =
                        ddiv (dmul heatingBTU (toDouble SEASON_HOURS_heating))
                             (dmul (toDouble (Fin 3412))
                                   (toDouble (SYSTEM_EFFICIENCY_heating (heatingSystem64 inp))))
                  in dmul kWh (electricityRate64 inp))
             | Gas_Furnace \<Rightarrow>
                 (let gasVolume =
                        ddiv (dmul heatingBTU (toDouble SEASON_HOURS_heating))
                             (dmul (toDouble (Fin 35300))
                                   (toDouble (SYSTEM_EFFICIENCY_heating (heatingSystem64 inp))))
                  in dmul gasVolume (gasRate64 inp)));
          coolingCost =
            (if coolingSystem64 inp \<noteq> No_Cooling
             then (let coolingBTU = dmul (homeSize64 inp) (toDouble ENERGY_CONSUMPTION_cooling);
                       kWh = ddiv (dmul coolingBTU (toDouble SEASON_HOURS_cooling))
                                  (dmul (toDouble (Fin 3412))
                                        (ddiv (currentSEER64 inp) (toDouble (Fin 10))))
                   in dmul kWh (electricityRate64 inp))
             else toDouble (Fin 0));
          heatPumpHeatingKWh =
            ddiv (dmul (dmul (homeSize64 inp) (toDouble ENERGY_CONSUMPTION_heating))
                       (toDouble SEASON_HOURS_heating))
                 (dmul (toDouble (Fin 3412)) (toDouble SYSTEM_EFFICIENCY_heatPump_heating));
          heatPumpHeatingCost' = dmul heatPumpHeatingKWh (electricityRate64 inp);
          heatPumpCoolingCost' =
            (if coolingSystem64 inp \<noteq> No_Cooling
             then (let heatPumpCoolingKWh =
                         ddiv (dmul (dmul (homeSize64 inp) (toDouble ENERGY_CONSUMPTION_cooling))
                                    (toDouble SEASON_HOURS_cooling))
                              (dmul (toDouble (Fin 3412))
                                    (ddiv (toDouble SYSTEM_EFFICIENCY_heatPump_cooling)
                                          (toDouble (Fin 10))))
                   in dmul heatPumpCoolingKWh (electricityRate64 inp))
             else toDouble (Fin 0))
      in \<lparr> currentHeating64 = heatingCost,
           currentCooling64 = coolingCost,
           heatPumpHeating64 = heatPumpHeatingCost',
           heatPumpCooling64 = heatPumpCoolingCost' \<rparr>)"

definition calculateCosts64 :: "Inputs64 \<Rightarrow> Costs64" where
  "calculateCosts64 inp =
     (if useManualInput64 inp then manualCosts64 inp else computedCosts64 inp)"


text \<open>
  The constants the effect and \<^verbatim>\<open>updateCosts\<close> divide by: the fuel contents times
  the efficiencies, the heat-pump figures, the SEER baseline 10 and the 12 months.
\<close>

definition constantDivisors :: "double list" where
  "constantDivisors =
     [dmul (toDouble (Fin 36000)) (toDouble (SYSTEM_EFFICIENCY_heating Oil_Furnace)),
      dmul (toDouble (Fin 3412)) (toDouble (SYSTEM_EFFICIENCY_heating Electric_Baseboards)),
      dmul (toDouble (Fin 35300)) (toDouble (SYSTEM_EFFICIENCY_heating Gas_Furnace)),
      dmul (toDouble (Fin 3412)) (toDouble SYSTEM_EFFICIENCY_heatPump_heating),
      dmul (toDouble (Fin 3412))
           (ddiv (toDouble SYSTEM_EFFICIENCY_heatPump_cooling) (toDouble (Fin 10))),
      toDouble SYSTEM_EFFICIENCY_heatPump_heating,
      toDouble SYSTEM_EFFICIENCY_heatPump_cooling,
      toDouble (Fin 10),
      toDouble (Fin 12)]"

text \<open>The inputs of the component's initial state, in doubles.\<close>

definition initialInputs64 :: Inputs64 where
  "initialInputs64 =
     \<lparr> homeSize64 = toDouble (Fin 1500),
       heatingSystem64 = Oil_Furnace,
       coolingSystem64 = Central_AC,
       electricityRate64 = toDouble DEFAULT_RATES_electricity,
       oilRate64 = toDouble DEFAULT_RATES_oil,
       gasRate64 = toDouble DEFAULT_RATES_gas,
       currentSEER64 = toDouble (Fin 10),
       useManualInput64 = False,
       manualHeatingCost64 = ''0'',
       manualCoolingCost64 = ''0'' \<rparr>"

definition manualInputs64 :: Inputs64 where
  "manualInputs64 =
     initialInputs64 \<lparr> useManualInput64 := True,
                       manualHeatingCost64 := ''1000'',
                       manualCoolingCost64 := ''500'' \<rparr>"

section \<open>Notions used to state the properties\<close>

text \<open>The sum of a list of numbers, added from left to right starting at zero.\<close>

definition sum_numbers :: "number list \<Rightarrow> number" where
  "sum_numbers xs = foldl jadd (Fin 0) xs"

text \<open>The result all of whose numbers are zero.\<close>

definition zeroResult :: Result where
  "zeroResult =
     \<lparr> currentHeatingCost = Fin 0,
       currentCoolingCost = Fin 0,
       heatPumpHeatingCost = Fin 0,
       heatPumpCoolingCost = Fin 0,
       monthlySavings = \<lparr> heating = Fin 0, cooling = Fin 0, total = Fin 0 \<rparr>,
       annualSavings = \<lparr> heating = Fin 0, cooling = Fin 0, total = Fin 0 \<rparr>,
       monthlyData =
         map (\<lambda>month. \<lparr> name = month, currentTotal = Fin 0,
                          heatPumpTotal = Fin 0, savings = Fin 0 \<rparr>) months \<rparr>"

text \<open>
  The inputs of the component's initial state: 1500 square feet, an oil furnace, central
  air conditioning of SEER 10, the default rates, computed (not manual) costs.
\<close>

definition initialInputs :: Inputs where
  "initialInputs =
     \<lparr> homeSize = Fin 1500,
       heatingSystem = Oil_Furnace,
       coolingSystem = Central_AC,
       electricityRate = DEFAULT_RATES_electricity,
       oilRate = DEFAULT_RATES_oil,
       gasRate = DEFAULT_RATES_gas,
       currentSEER = Fin 10,
       useManualInput = False,
       manualHeatingCost = ''0'',
       manualCoolingCost = ''0'' \<rparr>"

text \<open>The same with manual costs of 1000 for heating and 500 for cooling.\<close>

definition manualInputs :: Inputs where
  "manualInputs =
     initialInputs \<lparr> useManualInput := True,
                     manualHeatingCost := ''1000'',
                     manualCoolingCost := ''500'' \<rparr>"

text \<open>Manual costs with a non-numeric heating cost and an empty cooling cost.\<close>

definition unparseableInputs :: Inputs where
  "unparseableInputs =
     initialInputs \<lparr> useManualInput := True,
                     manualHeatingCost := ''abc'',
                     manualCoolingCost := [] \<rparr>"

section \<open>Properties\<close>

subsection \<open>What \<^verbatim>\<open>updateCosts\<close> sets\<close>

lemma enumerate_months:
  "enumerate 0 months =
     [(0, ''Jan''), (1, ''Feb''), (2, ''Mar''), (3, ''Apr''), (4, ''May''), (5, ''Jun''),
      (6, ''Jul''), (7, ''Aug''), (8, ''Sep''), (9, ''Oct''), (10, ''Nov''), (11, ''Dec'')]"
  by (simp add: months_def)

lemma updateCosts_costs:
  "currentHeatingCost (updateCosts h c hh hc) = h"
  "currentCoolingCost (updateCosts h c hh hc) = c"
  "heatPumpHeatingCost (updateCosts h c hh hc) = hh"
  "heatPumpCoolingCost (updateCosts h c hh hc) = hc"
  by (simp_all add: updateCosts_def Let_def)

lemma updateCosts_savings:
  "annualSavings (updateCosts h c hh hc) =
     \<lparr> heating = jsub h hh, cooling = jsub c hc, total = jadd (jsub h hh) (jsub c hc) \<rparr>"
  "monthlySavings (updateCosts h c hh hc) =
     \<lparr> heating = jdiv (jsub h hh) (Fin 12), cooling = jdiv (jsub c hc) (Fin 12),
       total = jdiv (jadd (jsub h hh) (jsub c hc)) (Fin 12) \<rparr>"
  by (simp_all add: updateCosts_def Let_def)

lemma updateCosts_monthlyData:
  "monthlyData (updateCosts h c hh hc) =
     map (\<lambda>(i, month). monthRecord h c hh hc month i) (enumerate 0 months)"
  by (simp add: updateCosts_def Let_def)

lemma monthlyData_explicit:
  "monthlyData (updateCosts h c hh hc) =
     [monthRecord h c hh hc ''Jan'' 0, monthRecord h c hh hc ''Feb'' 1,
      monthRecord h c hh hc ''Mar'' 2, monthRecord h c hh hc ''Apr'' 3,
      monthRecord h c hh hc ''May'' 4, monthRecord h c hh hc ''Jun'' 5,
      monthRecord h c hh hc ''Jul'' 6, monthRecord h c hh hc ''Aug'' 7,
      monthRecord h c hh hc ''Sep'' 8, monthRecord h c hh hc ''Oct'' 9,
      monthRecord h c hh hc ''Nov'' 10, monthRecord h c hh hc ''Dec'' 11]"
  by (simp add: updateCosts_monthlyData enumerate_months)

lemma heating_weights:
  "at_index heatingDistribution 0 = Fin 0.18" "at_index heatingDistribution 1 = Fin 0.16"
  "at_index heatingDistribution 2 = Fin 0.12" "at_index heatingDistribution 3 = Fin 0.08"
  "at_index heatingDistribution 4 = Fin 0.04" "at_index heatingDistribution 5 = Fin 0.01"
  "at_index heatingDistribution 6 = Fin 0.01" "at_index heatingDistribution 7 = Fin 0.01"
  "at_index heatingDistribution 8 = Fin 0.03" "at_index heatingDistribution 9 = Fin 0.07"
  "at_index heatingDistribution 10 = Fin 0.12" "at_index heatingDistribution 11 = Fin 0.17"
  by (simp_all add: at_index_def heatingDistribution_def)

lemma cooling_weights:
  "at_index coolingDistribution 0 = Fin 0.01" "at_index coolingDistribution 1 = Fin 0.01"
  "at_index coolingDistribution 2 = Fin 0.02" "at_index coolingDistribution 3 = Fin 0.05"
  "at_index coolingDistribution 4 = Fin 0.10" "at_index coolingDistribution 5 = Fin 0.18"
  "at_index coolingDistribution 6 = Fin 0.22" "at_index coolingDistribution 7 = Fin 0.20"
  "at_index coolingDistribution 8 = Fin 0.12" "at_index coolingDistribution 9 = Fin 0.06"
  "at_index coolingDistribution 10 = Fin 0.02" "at_index coolingDistribution 11 = Fin 0.01"
  by (simp_all add: at_index_def coolingDistribution_def)

lemma monthRecord_totals:
  "currentTotal (monthRecord h c hh hc month i) =
     jadd (jmul h (at_index heatingDistribution i)) (jmul c (at_index coolingDistribution i))"
  "heatPumpTotal (monthRecord h c hh hc month i) =
     jadd (jmul hh (at_index heatingDistribution i)) (jmul hc (at_index coolingDistribution i))"
  by (simp_all add: monthRecord_def Let_def)

lemma monthRecord_savings:
  "savings (monthRecord h c hh hc month i) =
     jsub (currentTotal (monthRecord h c hh hc month i))
          (heatPumpTotal (monthRecord h c hh hc month i))"
  by (simp add: monthRecord_def Let_def)

text \<open>Both branches of the effect end in one call of \<^verbatim>\<open>updateCosts\<close>.\<close>

lemma calculateCosts_updateCosts:
  "\<exists>h c hh hc. calculateCosts inp = updateCosts h c hh hc"
  unfolding calculateCosts_def manualCosts_def computedCosts_def Let_def
  by (cases "useManualInput inp") auto

subsection \<open>The savings invariants\<close>

lemma updateCosts_invariants:
  "total (annualSavings (updateCosts h c hh hc)) =
     jadd (heating (annualSavings (updateCosts h c hh hc)))
          (cooling (annualSavings (updateCosts h c hh hc)))"
  "heating (monthlySavings (updateCosts h c hh hc)) =
     jdiv (heating (annualSavings (updateCosts h c hh hc))) (Fin 12)"
  "cooling (monthlySavings (updateCosts h c hh hc)) =
     jdiv (cooling (annualSavings (updateCosts h c hh hc))) (Fin 12)"
  "total (monthlySavings (updateCosts h c hh hc)) =
     jdiv (total (annualSavings (updateCosts h c hh hc))) (Fin 12)"
  "length (monthlyData (updateCosts h c hh hc)) = 12"
  "map savings (monthlyData (updateCosts h c hh hc)) =
     map (\<lambda>m. jsub (currentTotal m) (heatPumpTotal m)) (monthlyData (updateCosts h c hh hc))"
  by (simp_all add: updateCosts_savings updateCosts_monthlyData months_def
        monthRecord_savings split_def)

text \<open>
  C1. For every input, the result of the computation has an annual total saving equal
  to the annual heating saving plus the annual cooling saving; each monthly saving
  (heating, cooling, total) is the annual one divided by 12; there are twelve monthly
  records, and in each the saving is the current total minus the heat-pump total.
\<close>

theorem savings_invariants:
  "total (annualSavings (calculateCosts inp)) =
     jadd (heating (annualSavings (calculateCosts inp)))
          (cooling (annualSavings (calculateCosts inp)))
   \<and> heating (monthlySavings (calculateCosts inp)) =
       jdiv (heating (annualSavings (calculateCosts inp))) (Fin 12)
   \<and> cooling (monthlySavings (calculateCosts inp)) =
       jdiv (cooling (annualSavings (calculateCosts inp))) (Fin 12)
   \<and> total (monthlySavings (calculateCosts inp)) =
       jdiv (total (annualSavings (calculateCosts inp))) (Fin 12)
   \<and> length (monthlyData (calculateCosts inp)) = 12
   \<and> map savings (monthlyData (calculateCosts inp)) =
       map (\<lambda>m. jsub (currentTotal m) (heatPumpTotal m)) (monthlyData (calculateCosts inp))"
proof -
  obtain h c hh hc where "calculateCosts inp = updateCosts h c hh hc"
    using calculateCosts_updateCosts by blast
  then show ?thesis
    using updateCosts_invariants [of h c hh hc] by simp
qed

subsection \<open>The monthly distribution\<close>

text \<open>
  The twelve monthly shares of a heating amount \<open>a\<close> and a cooling amount \<open>b\<close> add up
  to \<open>a + b\<close>, also when \<open>a\<close> or \<open>b\<close> is infinite or NaN: every weight is positive.
\<close>

lemma weighted_sum:
  "sum_numbers
     [jadd (jmul a (Fin 0.18)) (jmul b (Fin 0.01)), jadd (jmul a (Fin 0.16)) (jmul b (Fin 0.01)),
      jadd (jmul a (Fin 0.12)) (jmul b (Fin 0.02)), jadd (jmul a (Fin 0.08)) (jmul b (Fin 0.05)),
      jadd (jmul a (Fin 0.04)) (jmul b (Fin 0.10)), jadd (jmul a (Fin 0.01)) (jmul b (Fin 0.18)),
      jadd (jmul a (Fin 0.01)) (jmul b (Fin 0.22)), jadd (jmul a (Fin 0.01)) (jmul b (Fin 0.20)),
      jadd (jmul a (Fin 0.03)) (jmul b (Fin 0.12)), jadd (jmul a (Fin 0.07)) (jmul b (Fin 0.06)),
      jadd (jmul a (Fin 0.12)) (jmul b (Fin 0.02)), jadd (jmul a (Fin 0.17)) (jmul b (Fin 0.01))]
   = jadd a b"
  by (cases a; cases b) (simp_all add: sum_numbers_def inf_of_sign_def)

lemma distribution_sums:
  "sum_numbers heatingDistribution = Fin 1"
  "sum_numbers coolingDistribution = Fin 1"
  by (simp_all add: sum_numbers_def heatingDistribution_def coolingDistribution_def)

lemma updateCosts_monthly_sums:
  "sum_numbers (map currentTotal (monthlyData (updateCosts h c hh hc))) = jadd h c"
  "sum_numbers (map heatPumpTotal (monthlyData (updateCosts h c hh hc))) = jadd hh hc"
  by (simp_all only: monthlyData_explicit list.map monthRecord_totals heating_weights
        cooling_weights weighted_sum)

text \<open>
  C2. The heating-load distribution and the cooling-load distribution have twelve
  entries each and each sum to 1,
  and for every input the twelve monthly current totals sum to the current heating cost
  plus the current cooling cost, and the twelve monthly heat-pump totals to the
  heat-pump heating cost plus the heat-pump cooling cost. Numbers are exact here, so
  the sums are equal, not only close.
\<close>

theorem monthly_totals_sum:
  "length heatingDistribution = 12
   \<and> length coolingDistribution = 12
   \<and> sum_numbers heatingDistribution = Fin 1
   \<and> sum_numbers coolingDistribution = Fin 1
   \<and> sum_numbers (map currentTotal (monthlyData (calculateCosts inp))) =
       jadd (currentHeatingCost (calculateCosts inp)) (currentCoolingCost (calculateCosts inp))
   \<and> sum_numbers (map heatPumpTotal (monthlyData (calculateCosts inp))) =
       jadd (heatPumpHeatingCost (calculateCosts inp)) (heatPumpCoolingCost (calculateCosts inp))"
proof -
  have entries: "length heatingDistribution = 12" "length coolingDistribution = 12"
    by (simp_all add: heatingDistribution_def coolingDistribution_def)
  obtain h c hh hc where "calculateCosts inp = updateCosts h c hh hc"
    using calculateCosts_updateCosts by blast
  then show ?thesis
    by (simp add: entries distribution_sums updateCosts_monthly_sums updateCosts_costs)
qed

subsection \<open>The costs each branch passes to \<^verbatim>\<open>updateCosts\<close>\<close>

lemma calculateCosts_manual: "useManualInput inp \<Longrightarrow> calculateCosts inp = manualCosts inp"
  by (simp add: calculateCosts_def)

lemma calculateCosts_computed: "\<not> useManualInput inp \<Longrightarrow> calculateCosts inp = computedCosts inp"
  by (simp add: calculateCosts_def)

lemma manualCosts_costs:
  "currentHeatingCost (manualCosts inp) = or_else (parseFloat (manualHeatingCost inp)) (Fin 0)"
  "currentCoolingCost (manualCosts inp) = or_else (parseFloat (manualCoolingCost inp)) (Fin 0)"
  "heatPumpHeatingCost (manualCosts inp) =
     jmul (or_else (parseFloat (manualHeatingCost inp)) (Fin 0))
          (jdiv (Fin 1) SYSTEM_EFFICIENCY_heatPump_heating)"
  "heatPumpCoolingCost (manualCosts inp) =
     (if coolingSystem inp \<noteq> No_Cooling
      then jmul (or_else (parseFloat (manualCoolingCost inp)) (Fin 0))
                (jdiv (currentSEER inp) SYSTEM_EFFICIENCY_heatPump_cooling)
      else Fin 0)"
  by (simp_all add: manualCosts_def Let_def updateCosts_costs)

lemma computedCosts_costs:
  "currentHeatingCost (computedCosts inp) =
     (case heatingSystem inp of
        Oil_Furnace \<Rightarrow>
          jmul (jdiv (jmul (jmul (homeSize inp) (Fin 40)) (Fin 1200))
                     (jmul (Fin 36000) (Fin 0.80))) (oilRate inp)
      | Electric_Baseboards \<Rightarrow>
          jmul (jdiv (jmul (jmul (homeSize inp) (Fin 40)) (Fin 1200))
                     (jmul (Fin 3412) (Fin 1.0))) (electricityRate inp)
      | Gas_Furnace \<Rightarrow>
          jmul (jdiv (jmul (jmul (homeSize inp) (Fin 40)) (Fin 1200))
                     (jmul (Fin 35300) (Fin 0.85))) (gasRate inp))"
  "currentCoolingCost (computedCosts inp) =
     (if coolingSystem inp \<noteq> No_Cooling
      then jmul (jdiv (jmul (jmul (homeSize inp) (Fin 20)) (Fin 800))
                      (jmul (Fin 3412) (jdiv (currentSEER inp) (Fin 10)))) (electricityRate inp)
      else Fin 0)"
  "heatPumpHeatingCost (computedCosts inp) =
     jmul (jdiv (jmul (jmul (homeSize inp) (Fin 40)) (Fin 1200))
                (jmul (Fin 3412) (Fin 3.5))) (electricityRate inp)"
  "heatPumpCoolingCost (computedCosts inp) =
     (if coolingSystem inp \<noteq> No_Cooling
      then jmul (jdiv (jmul (jmul (homeSize inp) (Fin 20)) (Fin 800))
                      (jmul (Fin 3412) (jdiv (Fin 18) (Fin 10)))) (electricityRate inp)
      else Fin 0)"
  by (cases "heatingSystem inp";
      simp add: computedCosts_def Let_def updateCosts_costs ENERGY_CONSUMPTION_heating_def
        ENERGY_CONSUMPTION_cooling_def SEASON_HOURS_heating_def SEASON_HOURS_cooling_def
        SYSTEM_EFFICIENCY_heatPump_heating_def SYSTEM_EFFICIENCY_heatPump_cooling_def)+

subsection \<open>Concrete inputs\<close>

lemmas parse_defs = parseFloat_def strUnsignedDecimalLiteral_def isWhiteSpace1_def
  isWhiteSpace2_def isWhiteSpace3_def isDigit_def
  digitsValue_def pow10_def exponentPart_def signedInteger_def

lemma parseFloat_examples:
  "parseFloat ''1000'' = Fin 1000"
  "parseFloat ''500'' = Fin 500"
  "parseFloat ''0'' = Fin 0"
  "parseFloat ''abc'' = NaN"
  "parseFloat [] = NaN"
  by (simp_all add: parse_defs)

lemma initialInputs_fields:
  "homeSize initialInputs = Fin 1500"
  "heatingSystem initialInputs = Oil_Furnace"
  "coolingSystem initialInputs = Central_AC"
  "electricityRate initialInputs = Fin 0.15"
  "oilRate initialInputs = Fin 1.20"
  "gasRate initialInputs = Fin 1.50"
  "currentSEER initialInputs = Fin 10"
  "\<not> useManualInput initialInputs"
  by (simp_all add: initialInputs_def DEFAULT_RATES_electricity_def DEFAULT_RATES_oil_def
        DEFAULT_RATES_gas_def)

lemma manualInputs_fields:
  "useManualInput manualInputs"
  "manualHeatingCost manualInputs = ''1000''"
  "manualCoolingCost manualInputs = ''500''"
  "coolingSystem manualInputs = Central_AC"
  "currentSEER manualInputs = Fin 10"
  by (simp_all add: manualInputs_def initialInputs_def)

subsection \<open>Computed costs\<close>

text \<open>
  C3. With computed costs, an oil furnace, central air conditioning, 1500 square feet,
  rates 0.15, 1.20 and 1.50 and SEER 10, the current heating cost is
  \<open>(1500 * 40 * 1200) / (36000 * 0.80) * 1.20 = 3000\<close> and the heat-pump heating cost is
  \<open>(1500 * 40 * 1200) / (3412 * 3.5) * 0.15\<close>. For every input with computed costs the
  heat-pump heating cost is \<open>(homeSize * 40 * 1200) / (3412 * 3.5)\<close> times the
  electricity rate, whichever heating system \<open>hs\<close> is selected.
\<close>

theorem computed_heating_costs:
  "currentHeatingCost (calculateCosts initialInputs) = Fin 3000
   \<and> currentHeatingCost (calculateCosts initialInputs) =
       Fin ((1500 * 40 * 1200) / (36000 * 0.80) * 1.20)
   \<and> heatPumpHeatingCost (calculateCosts initialInputs) =
       Fin ((1500 * 40 * 1200) / (3412 * 3.5) * 0.15)
   \<and> heatPumpHeatingCost (calculateCosts (inp \<lparr> useManualInput := False, heatingSystem := hs \<rparr>)) =
       jmul (jdiv (jmul (jmul (homeSize inp) (Fin 40)) (Fin 1200)) (jmul (Fin 3412) (Fin 3.5)))
            (electricityRate inp)
   \<and> heatPumpHeatingCost
         (calculateCosts (inp \<lparr> useManualInput := False, heatingSystem := hs,
                                 homeSize := Fin a, electricityRate := Fin e \<rparr>)) =
       Fin ((a * 40 * 1200) / (3412 * 3.5) * e)"
  by (simp add: calculateCosts_computed computedCosts_costs initialInputs_fields)

subsection \<open>Rounding to the nearest double\<close>

lemmas rnd_eval = rnd_def round_mag_def round_even_def binade_def ulp_def Let_def












lemma round_mag_zero: "round_mag 0 = 0"
  by (simp add: round_mag_def)

lemma rnd_zero: "rnd s 0 = Dbl s 0"
  by (simp add: rnd_def round_mag_zero)



subsection \<open>The order of the doubles and the operations\<close>













subsection \<open>The costs of each branch in doubles\<close>

lemma const_doubles:
  "toDouble (Fin 0) = Dbl False 0"
  "toDouble (Fin 1) = Dbl False 1"
  "toDouble (Fin 10) = Dbl False 10"
  "toDouble (Fin 3412) = Dbl False 3412"
  "toDouble (Fin 36000) = Dbl False 36000"
  "toDouble (Fin 35300) = Dbl False 35300"
  "toDouble ENERGY_CONSUMPTION_heating = Dbl False 40"
  "toDouble ENERGY_CONSUMPTION_cooling = Dbl False 20"
  "toDouble SEASON_HOURS_heating = Dbl False 1200"
  "toDouble SEASON_HOURS_cooling = Dbl False 800"
  "toDouble SYSTEM_EFFICIENCY_heatPump_heating = Dbl False 3.5"
  "toDouble SYSTEM_EFFICIENCY_heatPump_cooling = Dbl False 18"
  by (simp_all add: rnd_eval compute_bitlen ENERGY_CONSUMPTION_heating_def
        ENERGY_CONSUMPTION_cooling_def SEASON_HOURS_heating_def SEASON_HOURS_cooling_def
        SYSTEM_EFFICIENCY_heatPump_heating_def SYSTEM_EFFICIENCY_heatPump_cooling_def)

lemma divisor_doubles:
  "dmul (Dbl False 36000) (toDouble (SYSTEM_EFFICIENCY_heating Oil_Furnace)) = Dbl False 28800"
  "dmul (Dbl False 3412) (toDouble (SYSTEM_EFFICIENCY_heating Electric_Baseboards)) =
     Dbl False 3412"
  "dmul (Dbl False 35300) (toDouble (SYSTEM_EFFICIENCY_heating Gas_Furnace)) = Dbl False 30005"
  "dmul (Dbl False 3412) (Dbl False 3.5) = Dbl False 11942"
  "dmul (Dbl False 3412) (ddiv (Dbl False 18) (Dbl False 10)) =
     Dbl False (3376380306574541 / 549755813888)"
  by (simp_all add: rnd_eval compute_bitlen)

lemma manualCosts64_fields:
  "currentHeating64 (manualCosts64 inp) =
     or_else64 (parseFloat64 (manualHeatingCost64 inp)) (Dbl False 0)"
  "currentCooling64 (manualCosts64 inp) =
     or_else64 (parseFloat64 (manualCoolingCost64 inp)) (Dbl False 0)"
  "heatPumpHeating64 (manualCosts64 inp) =
     dmul (or_else64 (parseFloat64 (manualHeatingCost64 inp)) (Dbl False 0))
          (ddiv (Dbl False 1) (Dbl False 3.5))"
  "heatPumpCooling64 (manualCosts64 inp) =
     (if coolingSystem64 inp \<noteq> No_Cooling
      then dmul (or_else64 (parseFloat64 (manualCoolingCost64 inp)) (Dbl False 0))
                (ddiv (currentSEER64 inp) (Dbl False 18))
      else Dbl False 0)"
  by (simp_all only: manualCosts64_def Let_def const_doubles Costs64.simps)

lemma computedCosts64_fields:
  "currentHeating64 (computedCosts64 inp) =
     (case heatingSystem64 inp of
        Oil_Furnace \<Rightarrow>
          dmul (ddiv (dmul (dmul (homeSize64 inp) (Dbl False 40)) (Dbl False 1200))
                     (Dbl False 28800)) (oilRate64 inp)
      | Electric_Baseboards \<Rightarrow>
          dmul (ddiv (dmul (dmul (homeSize64 inp) (Dbl False 40)) (Dbl False 1200))
                     (Dbl False 3412)) (electricityRate64 inp)
      | Gas_Furnace \<Rightarrow>
          dmul (ddiv (dmul (dmul (homeSize64 inp) (Dbl False 40)) (Dbl False 1200))
                     (Dbl False 30005)) (gasRate64 inp))"
  "currentCooling64 (computedCosts64 inp) =
     (if coolingSystem64 inp \<noteq> No_Cooling
      then dmul (ddiv (dmul (dmul (homeSize64 inp) (Dbl False 20)) (Dbl False 800))
                      (dmul (Dbl False 3412) (ddiv (currentSEER64 inp) (Dbl False 10))))
                (electricityRate64 inp)
      else Dbl False 0)"
  "heatPumpHeating64 (computedCosts64 inp) =
     dmul (ddiv (dmul (dmul (homeSize64 inp) (Dbl False 40)) (Dbl False 1200))
                (Dbl False 11942)) (electricityRate64 inp)"
  "heatPumpCooling64 (computedCosts64 inp) =
     (if coolingSystem64 inp \<noteq> No_Cooling
      then dmul (ddiv (dmul (dmul (homeSize64 inp) (Dbl False 20)) (Dbl False 800))
                      (Dbl False (3376380306574541 / 549755813888)))
                (electricityRate64 inp)
      else Dbl False 0)"
proof -
  show "currentHeating64 (computedCosts64 inp) =
     (case heatingSystem64 inp of
        Oil_Furnace \<Rightarrow>
          dmul (ddiv (dmul (dmul (homeSize64 inp) (Dbl False 40)) (Dbl False 1200))
                     (Dbl False 28800)) (oilRate64 inp)
      | Electric_Baseboards \<Rightarrow>
          dmul (ddiv (dmul (dmul (homeSize64 inp) (Dbl False 40)) (Dbl False 1200))
                     (Dbl False 3412)) (electricityRate64 inp)
      | Gas_Furnace \<Rightarrow>
          dmul (ddiv (dmul (dmul (homeSize64 inp) (Dbl False 40)) (Dbl False 1200))
                     (Dbl False 30005)) (gasRate64 inp))"
    by (cases "heatingSystem64 inp")
       (simp_all only: computedCosts64_def Let_def Costs64.simps HeatingSystem.case
          divisor_doubles const_doubles)
  show "currentCooling64 (computedCosts64 inp) =
     (if coolingSystem64 inp \<noteq> No_Cooling
      then dmul (ddiv (dmul (dmul (homeSize64 inp) (Dbl False 20)) (Dbl False 800))
                      (dmul (Dbl False 3412) (ddiv (currentSEER64 inp) (Dbl False 10))))
                (electricityRate64 inp)
      else Dbl False 0)"
    by (simp only: computedCosts64_def Let_def Costs64.simps const_doubles)
  show "heatPumpHeating64 (computedCosts64 inp) =
     dmul (ddiv (dmul (dmul (homeSize64 inp) (Dbl False 40)) (Dbl False 1200))
                (Dbl False 11942)) (electricityRate64 inp)"
    by (simp only: computedCosts64_def Let_def Costs64.simps divisor_doubles const_doubles)
  show "heatPumpCooling64 (computedCosts64 inp) =
     (if coolingSystem64 inp \<noteq> No_Cooling
      then dmul (ddiv (dmul (dmul (homeSize64 inp) (Dbl False 20)) (Dbl False 800))
                      (Dbl False (3376380306574541 / 549755813888)))
                (electricityRate64 inp)
      else Dbl False 0)"
    by (simp only: computedCosts64_def Let_def Costs64.simps divisor_doubles const_doubles)
qed


lemma calculateCosts64_manual:
  "useManualInput64 inp \<Longrightarrow> calculateCosts64 inp = manualCosts64 inp"
  by (simp add: calculateCosts64_def)

lemma calculateCosts64_computed:
  "\<not> useManualInput64 inp \<Longrightarrow> calculateCosts64 inp = computedCosts64 inp"
  by (simp add: calculateCosts64_def)

lemmas parse64_defs = parseFloat64_def strUnsignedDecimalLiteral_def isWhiteSpace1_def
  isWhiteSpace2_def isWhiteSpace3_def isDigit_def digitsValue_def pow10_def exponentPart_def
  signedInteger_def

lemma parseFloat64_examples:
  "parseFloat64 ''1000'' = Dbl False 1000"
  "parseFloat64 ''500'' = Dbl False 500"
  "parseFloat64 ''5'' = Dbl False 5"
  "parseFloat64 ''0'' = Dbl False 0"
  by (simp_all add: parse64_defs rnd_eval compute_bitlen)

lemma manualInputs64_fields:
  "useManualInput64 manualInputs64"
  "manualHeatingCost64 manualInputs64 = ''1000''"
  "manualCoolingCost64 manualInputs64 = ''500''"
  "coolingSystem64 manualInputs64 = Central_AC"
  "currentSEER64 manualInputs64 = Dbl False 10"
  by (simp_all add: manualInputs64_def initialInputs64_def rnd_eval compute_bitlen)

lemma or_else64_examples:
  "or_else64 (Dbl False 1000) d = Dbl False 1000"
  "or_else64 (Dbl False 500) d = Dbl False 500"
  "or_else64 (Dbl False 5) d = Dbl False 5"
  "or_else64 (Dbl False 0) d = d"
  by (simp_all add: or_else64_def truthy64_def)

lemma reciprocal_double:
  "ddiv (Dbl False 1) (Dbl False 3.5) = Dbl False (2573485501354569 / 9007199254740992)"
  by (simp add: rnd_eval compute_bitlen)

lemma initialInputs64_fields:
  "homeSize64 initialInputs64 = Dbl False 1500"
  "heatingSystem64 initialInputs64 = Oil_Furnace"
  "coolingSystem64 initialInputs64 = Central_AC"
  "electricityRate64 initialInputs64 = Dbl False (5404319552844595 / 36028797018963968)"
  "oilRate64 initialInputs64 = Dbl False (5404319552844595 / 4503599627370496)"
  "currentSEER64 initialInputs64 = Dbl False 10"
  "\<not> useManualInput64 initialInputs64"
  by (simp_all add: initialInputs64_def DEFAULT_RATES_electricity_def DEFAULT_RATES_oil_def
        rnd_eval compute_bitlen)

subsection \<open>Manual costs\<close>

text \<open>
  C4 as stated fails on the heat-pump heating cost: the effect multiplies the manual
  heating cost by the double \<open>1 / 3.5\<close>, and in doubles that is not always the
  quotient by 3.5. With the manual heating cost 5 the effect gives
  \<open>5 * (1 / 3.5) = 1.4285714285714284\<close>, while \<open>5 / 3.5 = 1.4285714285714286\<close>.
\<close>

theorem reciprocal_counterexample:
  "useManualInput64 (manualInputs64 \<lparr> manualHeatingCost64 := ''5'' \<rparr>)
   \<and> currentHeating64 (calculateCosts64 (manualInputs64 \<lparr> manualHeatingCost64 := ''5'' \<rparr>)) =
       Dbl False 5
   \<and> heatPumpHeating64 (calculateCosts64 (manualInputs64 \<lparr> manualHeatingCost64 := ''5'' \<rparr>)) =
       Dbl False (3216856876693211 / 2251799813685248)
   \<and> ddiv (Dbl False 5) (toDouble (Fin 3.5)) = Dbl False (6433713753386423 / 4503599627370496)
   \<and> heatPumpHeating64 (calculateCosts64 (manualInputs64 \<lparr> manualHeatingCost64 := ''5'' \<rparr>)) \<noteq>
       ddiv (currentHeating64 (calculateCosts64 (manualInputs64 \<lparr> manualHeatingCost64 := ''5'' \<rparr>)))
            (toDouble (Fin 3.5))"
proof -
  let ?inp = "manualInputs64 \<lparr> manualHeatingCost64 := ''5'' \<rparr>"
  have m: "useManualInput64 ?inp" "manualHeatingCost64 ?inp = ''5''"
    by (simp_all add: manualInputs64_fields)
  have h: "currentHeating64 (calculateCosts64 ?inp) = Dbl False 5"
    by (simp add: calculateCosts64_manual manualCosts64_fields m parseFloat64_examples
          or_else64_examples)
  have p: "heatPumpHeating64 (calculateCosts64 ?inp) =
             Dbl False (3216856876693211 / 2251799813685248)"
    by (simp add: calculateCosts64_manual manualCosts64_fields m parseFloat64_examples
          or_else64_examples reciprocal_double)
       (simp add: rnd_eval compute_bitlen)
  have q: "ddiv (Dbl False 5) (toDouble (Fin 3.5)) =
             Dbl False (6433713753386423 / 4503599627370496)"
    by (simp add: rnd_eval compute_bitlen)
  show ?thesis
    unfolding h p q using m by simp
qed

text \<open>
  C4, amended. With manual costs, where \<open>H\<close> and \<open>C\<close> are the manual heating and
  cooling costs as the effect reads them (\<^verbatim>\<open>parseFloat(...) || 0\<close>), the current
  costs are \<open>H\<close> and \<open>C\<close>, the heat-pump heating cost is \<open>H * (1 / 3.5)\<close>, and the
  heat-pump cooling cost is \<open>C * (currentSEER / 18)\<close> unless the cooling system is
  No Cooling, where it is 0. For the strings 1000 and 500, central air conditioning and
  SEER 10 this gives the doubles \<open>1000 / 3.5\<close> and \<open>500 * (10 / 18)\<close>.
\<close>

theorem manual_heat_pump_costs:
  "(useManualInput64 inp \<longrightarrow>
      currentHeating64 (calculateCosts64 inp) =
        or_else64 (parseFloat64 (manualHeatingCost64 inp)) (toDouble (Fin 0))
    \<and> currentCooling64 (calculateCosts64 inp) =
        or_else64 (parseFloat64 (manualCoolingCost64 inp)) (toDouble (Fin 0))
    \<and> heatPumpHeating64 (calculateCosts64 inp) =
        dmul (currentHeating64 (calculateCosts64 inp))
             (ddiv (toDouble (Fin 1)) (toDouble (Fin 3.5)))
    \<and> heatPumpCooling64 (calculateCosts64 inp) =
        (if coolingSystem64 inp \<noteq> No_Cooling
         then dmul (currentCooling64 (calculateCosts64 inp))
                   (ddiv (currentSEER64 inp) (toDouble (Fin 18)))
         else toDouble (Fin 0)))
   \<and> currentHeating64 (calculateCosts64 manualInputs64) = toDouble (Fin 1000)
   \<and> currentCooling64 (calculateCosts64 manualInputs64) = toDouble (Fin 500)
   \<and> heatPumpHeating64 (calculateCosts64 manualInputs64) =
       ddiv (toDouble (Fin 1000)) (toDouble (Fin 3.5))
   \<and> heatPumpCooling64 (calculateCosts64 manualInputs64) =
       dmul (toDouble (Fin 500)) (ddiv (toDouble (Fin 10)) (toDouble (Fin 18)))"
proof -
  have general: "useManualInput64 inp \<longrightarrow>
      currentHeating64 (calculateCosts64 inp) =
        or_else64 (parseFloat64 (manualHeatingCost64 inp)) (toDouble (Fin 0))
    \<and> currentCooling64 (calculateCosts64 inp) =
        or_else64 (parseFloat64 (manualCoolingCost64 inp)) (toDouble (Fin 0))
    \<and> heatPumpHeating64 (calculateCosts64 inp) =
        dmul (currentHeating64 (calculateCosts64 inp))
             (ddiv (toDouble (Fin 1)) (toDouble (Fin 3.5)))
    \<and> heatPumpCooling64 (calculateCosts64 inp) =
        (if coolingSystem64 inp \<noteq> No_Cooling
         then dmul (currentCooling64 (calculateCosts64 inp))
                   (ddiv (currentSEER64 inp) (toDouble (Fin 18)))
         else toDouble (Fin 0))"
    by (simp add: calculateCosts64_manual manualCosts64_def Let_def
          SYSTEM_EFFICIENCY_heatPump_heating_def SYSTEM_EFFICIENCY_heatPump_cooling_def)
  have k: "toDouble (Fin 1000) = Dbl False 1000" "toDouble (Fin 500) = Dbl False 500"
    "toDouble (Fin 3.5) = Dbl False 3.5" "toDouble (Fin 18) = Dbl False 18"
    by (simp_all add: rnd_eval compute_bitlen)
  have h: "currentHeating64 (calculateCosts64 manualInputs64) = Dbl False 1000"
    and c: "currentCooling64 (calculateCosts64 manualInputs64) = Dbl False 500"
    by (simp_all add: calculateCosts64_manual manualCosts64_fields manualInputs64_fields
          parseFloat64_examples or_else64_examples)
  have hp: "heatPumpHeating64 (calculateCosts64 manualInputs64) =
              Dbl False (5026338869833143 / 17592186044416)"
    by (simp add: calculateCosts64_manual manualCosts64_fields manualInputs64_fields
          parseFloat64_examples or_else64_examples reciprocal_double)
       (simp add: rnd_eval compute_bitlen)
  have hq: "ddiv (Dbl False 1000) (Dbl False 3.5) = Dbl False (5026338869833143 / 17592186044416)"
    by (simp add: rnd_eval compute_bitlen)
  have cp: "heatPumpCooling64 (calculateCosts64 manualInputs64) =
              dmul (Dbl False 500) (ddiv (Dbl False 10) (Dbl False 18))"
    by (simp add: calculateCosts64_manual manualCosts64_fields manualInputs64_fields
          parseFloat64_examples or_else64_examples)
  show ?thesis
    using general by (simp only: k h c hp hq cp const_doubles)
qed

theorem manual_heat_pump_costs_witness:
  "useManualInput64 manualInputs64
   \<and> coolingSystem64 manualInputs64 \<noteq> No_Cooling
   \<and> currentHeating64 (calculateCosts64 manualInputs64) = Dbl False 1000
   \<and> currentCooling64 (calculateCosts64 manualInputs64) = Dbl False 500
   \<and> heatPumpHeating64 (calculateCosts64 manualInputs64) =
       dmul (Dbl False 1000) (ddiv (toDouble (Fin 1)) (toDouble (Fin 3.5)))
   \<and> heatPumpCooling64 (calculateCosts64 manualInputs64) =
       dmul (Dbl False 500) (ddiv (Dbl False 10) (toDouble (Fin 18)))"
  using manual_heat_pump_costs [of manualInputs64]
  by (simp add: manualInputs64_fields parseFloat64_examples or_else64_examples
        del: toDouble.simps)

subsection \<open>The cooling variants\<close>

text \<open>
  C10. Two inputs that differ only in selecting Central AC or Window AC give the same
  result, with manual and with computed costs: the effect only tests the cooling system
  against No Cooling, and the base SEER constants of the variants (10 and 8) do not
  enter the computation.
\<close>

theorem central_window_same_result:
  "calculateCosts (inp \<lparr> coolingSystem := Central_AC \<rparr>) =
     calculateCosts (inp \<lparr> coolingSystem := Window_AC \<rparr>)
   \<and> SYSTEM_EFFICIENCY_cooling_base Central_AC = Fin 10
   \<and> SYSTEM_EFFICIENCY_cooling_base Window_AC = Fin 8"
  by (cases "heatingSystem inp")
     (simp_all add: calculateCosts_def manualCosts_def computedCosts_def Let_def)

subsection \<open>No cooling\<close>

text \<open>
  C5 as stated fails with manual costs: the manual branch passes the manual cooling
  cost on as the current cooling cost whatever the cooling system is. With No Cooling
  and the manual cooling cost 500, the current cooling cost is 500.
\<close>

theorem no_cooling_manual_counterexample:
  "useManualInput (manualInputs \<lparr> coolingSystem := No_Cooling \<rparr>)
   \<and> coolingSystem (manualInputs \<lparr> coolingSystem := No_Cooling \<rparr>) = No_Cooling
   \<and> currentCoolingCost (calculateCosts (manualInputs \<lparr> coolingSystem := No_Cooling \<rparr>)) = Fin 500
   \<and> currentCoolingCost (calculateCosts (manualInputs \<lparr> coolingSystem := No_Cooling \<rparr>)) \<noteq> Fin 0"
  by (simp add: calculateCosts_def manualCosts_costs manualInputs_fields parseFloat_examples
        or_else_def truthy_def)

text \<open>
  C5, amended. For every input with No Cooling selected and every SEER value, the
  heat-pump cooling cost is 0 with manual and with computed costs; the current cooling
  cost is 0 with computed costs, and with manual costs it is the manual cooling cost
  as the effect reads it (\<^verbatim>\<open>parseFloat(manualCoolingCost) || 0\<close>).
\<close>

theorem no_cooling_costs:
  "heatPumpCoolingCost
     (calculateCosts (inp \<lparr> coolingSystem := No_Cooling, currentSEER := seer \<rparr>)) = Fin 0
   \<and> currentCoolingCost
       (calculateCosts (inp \<lparr> coolingSystem := No_Cooling, currentSEER := seer \<rparr>)) =
       (if useManualInput inp then or_else (parseFloat (manualCoolingCost inp)) (Fin 0)
        else Fin 0)"
  by (simp add: calculateCosts_def manualCosts_costs computedCosts_costs)

subsection \<open>Manual costs that do not parse\<close>

lemma zero_month:
  "at_index heatingDistribution i = Fin w \<Longrightarrow> at_index coolingDistribution i = Fin v \<Longrightarrow>
   monthRecord (Fin 0) (Fin 0) (Fin 0) (Fin 0) month i =
     \<lparr> name = month, currentTotal = Fin 0, heatPumpTotal = Fin 0, savings = Fin 0 \<rparr>"
  by (simp add: monthRecord_def Let_def jsub_def)

lemma monthlyData_zero:
  "monthlyData (updateCosts (Fin 0) (Fin 0) (Fin 0) (Fin 0)) =
     map (\<lambda>month. \<lparr> name = month, currentTotal = Fin 0,
                      heatPumpTotal = Fin 0, savings = Fin 0 \<rparr>) months"
  by (simp only: monthlyData_explicit months_def list.map
        zero_month [OF heating_weights(1) cooling_weights(1)]
        zero_month [OF heating_weights(2) cooling_weights(2)]
        zero_month [OF heating_weights(3) cooling_weights(3)]
        zero_month [OF heating_weights(4) cooling_weights(4)]
        zero_month [OF heating_weights(5) cooling_weights(5)]
        zero_month [OF heating_weights(6) cooling_weights(6)]
        zero_month [OF heating_weights(7) cooling_weights(7)]
        zero_month [OF heating_weights(8) cooling_weights(8)]
        zero_month [OF heating_weights(9) cooling_weights(9)]
        zero_month [OF heating_weights(10) cooling_weights(10)]
        zero_month [OF heating_weights(11) cooling_weights(11)]
        zero_month [OF heating_weights(12) cooling_weights(12)])

lemma updateCosts_zero: "updateCosts (Fin 0) (Fin 0) (Fin 0) (Fin 0) = zeroResult"
  by (rule Result.equality)
     (simp_all add: updateCosts_costs updateCosts_savings monthlyData_zero zeroResult_def jsub_def)

lemma or_else_NaN: "or_else NaN d = d"
  by (simp add: or_else_def truthy_def)

lemma jmul_zero_finite: "isFinite x \<Longrightarrow> jmul (Fin 0) (jdiv x (Fin 18)) = Fin 0"
  by (cases x) simp_all

text \<open>
  C6. With manual costs, a manual cost string that does not parse (\<^verbatim>\<open>parseFloat\<close>
  gives NaN, as for a non-numeric or an empty string) is read as 0, and nothing is
  raised. When both strings do not parse, the result is the zero result: the four annual
  costs, the annual and monthly savings and every field of the twelve monthly records
  are 0. The SEER is taken to be a finite number.
\<close>

theorem unparseable_manual_costs:
  "(useManualInput inp \<longrightarrow>
      (parseFloat (manualHeatingCost inp) = NaN \<longrightarrow> currentHeatingCost (calculateCosts inp) = Fin 0)
    \<and> (parseFloat (manualCoolingCost inp) = NaN \<longrightarrow> currentCoolingCost (calculateCosts inp) = Fin 0)
    \<and> (parseFloat (manualHeatingCost inp) = NaN \<and> parseFloat (manualCoolingCost inp) = NaN
        \<and> isFinite (currentSEER inp) \<longrightarrow> calculateCosts inp = zeroResult))
   \<and> parseFloat ''abc'' = NaN
   \<and> parseFloat [] = NaN"
proof -
  have both: "calculateCosts inp = zeroResult"
    if "useManualInput inp" "parseFloat (manualHeatingCost inp) = NaN"
       "parseFloat (manualCoolingCost inp) = NaN" "isFinite (currentSEER inp)"
    using that
    by (simp add: calculateCosts_manual manualCosts_def Let_def or_else_NaN
          SYSTEM_EFFICIENCY_heatPump_heating_def SYSTEM_EFFICIENCY_heatPump_cooling_def
          jmul_zero_finite updateCosts_zero)
  show ?thesis
    using both
    by (simp add: calculateCosts_manual manualCosts_costs or_else_NaN parseFloat_examples)
qed

theorem unparseable_manual_costs_witness:
  "useManualInput unparseableInputs
   \<and> parseFloat (manualHeatingCost unparseableInputs) = NaN
   \<and> parseFloat (manualCoolingCost unparseableInputs) = NaN
   \<and> isFinite (currentSEER unparseableInputs)
   \<and> currentHeatingCost (calculateCosts unparseableInputs) = Fin 0
   \<and> currentCoolingCost (calculateCosts unparseableInputs) = Fin 0
   \<and> calculateCosts unparseableInputs = zeroResult"
proof -
  have fields: "useManualInput unparseableInputs"
    "manualHeatingCost unparseableInputs = ''abc''"
    "manualCoolingCost unparseableInputs = []"
    "currentSEER unparseableInputs = Fin 10"
    by (simp_all add: unparseableInputs_def initialInputs_def)
  show ?thesis
    using unparseable_manual_costs [of unparseableInputs]
    by (simp add: fields parseFloat_examples zeroResult_def)
qed

subsection \<open>Division by zero\<close>

text \<open>
  C7 as stated fails on where the division by a zero SEER is. With computed costs,
  central air conditioning and SEER 0 the current cooling cost divides by
  \<open>3412 * (0 / 10)\<close> and is infinite. With manual costs and SEER 0 the scale factor is
  \<open>0 / 18\<close>: the SEER is a numerator, and the heat-pump cooling cost is 0.
\<close>

theorem zero_SEER_counterexample:
  "\<not> useManualInput (initialInputs \<lparr> currentSEER := Fin 0 \<rparr>)
   \<and> currentCoolingCost (calculateCosts (initialInputs \<lparr> currentSEER := Fin 0 \<rparr>)) = PInf
   \<and> useManualInput (manualInputs \<lparr> currentSEER := Fin 0 \<rparr>)
   \<and> heatPumpCoolingCost (calculateCosts (manualInputs \<lparr> currentSEER := Fin 0 \<rparr>)) = Fin 0"
  by (simp add: calculateCosts_def computedCosts_costs manualCosts_costs initialInputs_fields
        manualInputs_fields parseFloat_examples or_else_def truthy_def inf_of_sign_def
        SYSTEM_EFFICIENCY_heatPump_cooling_def)

lemma constantDivisors_nonzero:
  "list_all (\<lambda>d. isFinite64 d \<and> \<not> isZero64 d) constantDivisors"
proof -
  have "toDouble (Fin 12) = Dbl False 12"
    by (simp add: rnd_eval compute_bitlen)
  then show ?thesis
    by (simp only: constantDivisors_def const_doubles divisor_doubles) simp
qed

lemma zero_SEER_computed:
  assumes "isZero64 seer"
  shows "\<not> isFinite64 (dmul (ddiv x (dmul (Dbl False 3412) (ddiv seer (Dbl False 10)))) rate)"
proof -
  from assms obtain s where seer: "seer = Dbl s 0" by (cases seer) simp_all
  have d: "dmul (Dbl False 3412) (ddiv seer (Dbl False 10)) = Dbl s 0"
    by (simp add: seer rnd_zero)
  have "\<not> isFinite64 (ddiv x (Dbl s 0))" by (cases x) simp_all
  then have "\<not> isFinite64 (dmul (ddiv x (Dbl s 0)) rate)"
    by (cases "ddiv x (Dbl s 0)"; cases rate) simp_all
  then show ?thesis unfolding d .
qed

lemma zero_SEER_manual:
  assumes "isZero64 seer" "isFinite64 c"
  shows "isZero64 (dmul c (ddiv seer (Dbl False 18)))"
proof -
  from assms obtain s t m where "seer = Dbl s 0" "c = Dbl t m"
    by (cases seer; cases c) simp_all
  then show ?thesis by (simp add: rnd_zero)
qed

text \<open>
  C7, amended. No operation of the computation fails: it returns four costs on every
  input, and the constants it divides by are finite and not zero. A zero SEER is a
  divisor only where costs are computed and the cooling system is not No Cooling: the
  current cooling cost divides by \<open>3412 * (currentSEER / 10)\<close> and is an infinity or
  NaN, not an error. The three other computed costs do not depend on the SEER. With
  manual costs the SEER is a numerator only: a zero SEER gives a heat-pump cooling cost
  of zero whenever the manual cooling cost is finite, and the three other costs do not
  depend on the SEER.
\<close>

theorem zero_SEER_division:
  "(\<not> useManualInput64 inp \<and> coolingSystem64 inp \<noteq> No_Cooling \<and> isZero64 (currentSEER64 inp)
      \<longrightarrow> \<not> isFinite64 (currentCooling64 (calculateCosts64 inp)))
   \<and> (useManualInput64 inp \<and> isZero64 (currentSEER64 inp)
        \<and> isFinite64 (currentCooling64 (calculateCosts64 inp))
      \<longrightarrow> isZero64 (heatPumpCooling64 (calculateCosts64 inp)))
   \<and> currentHeating64 (calculateCosts64 (inp \<lparr> currentSEER64 := seer \<rparr>)) =
       currentHeating64 (calculateCosts64 inp)
   \<and> heatPumpHeating64 (calculateCosts64 (inp \<lparr> currentSEER64 := seer \<rparr>)) =
       heatPumpHeating64 (calculateCosts64 inp)
   \<and> (\<not> useManualInput64 inp \<longrightarrow>
        heatPumpCooling64 (calculateCosts64 (inp \<lparr> currentSEER64 := seer \<rparr>)) =
          heatPumpCooling64 (calculateCosts64 inp))
   \<and> (useManualInput64 inp \<longrightarrow>
        currentCooling64 (calculateCosts64 (inp \<lparr> currentSEER64 := seer \<rparr>)) =
          currentCooling64 (calculateCosts64 inp))
   \<and> list_all (\<lambda>d. isFinite64 d \<and> \<not> isZero64 d) constantDivisors"
proof -
  have a: "\<not> isFinite64 (currentCooling64 (calculateCosts64 inp))"
    if "\<not> useManualInput64 inp" "coolingSystem64 inp \<noteq> No_Cooling"
       "isZero64 (currentSEER64 inp)"
    using that zero_SEER_computed [of "currentSEER64 inp"]
    by (simp add: calculateCosts64_computed computedCosts64_fields)
  have b: "isZero64 (heatPumpCooling64 (calculateCosts64 inp))"
    if "useManualInput64 inp" "isZero64 (currentSEER64 inp)"
       "isFinite64 (currentCooling64 (calculateCosts64 inp))"
    using that zero_SEER_manual [of "currentSEER64 inp"]
    by (simp add: calculateCosts64_manual manualCosts64_fields)
  have c: "currentHeating64 (calculateCosts64 (inp \<lparr> currentSEER64 := seer \<rparr>)) =
             currentHeating64 (calculateCosts64 inp)"
    "heatPumpHeating64 (calculateCosts64 (inp \<lparr> currentSEER64 := seer \<rparr>)) =
       heatPumpHeating64 (calculateCosts64 inp)"
    by (cases "heatingSystem64 inp";
        simp add: calculateCosts64_def manualCosts64_fields computedCosts64_fields)+
  have d: "heatPumpCooling64 (calculateCosts64 (inp \<lparr> currentSEER64 := seer \<rparr>)) =
             heatPumpCooling64 (calculateCosts64 inp)"
    if "\<not> useManualInput64 inp"
    using that by (simp add: calculateCosts64_def computedCosts64_fields)
  have e: "currentCooling64 (calculateCosts64 (inp \<lparr> currentSEER64 := seer \<rparr>)) =
             currentCooling64 (calculateCosts64 inp)"
    if "useManualInput64 inp"
    using that by (simp add: calculateCosts64_def manualCosts64_fields)
  show ?thesis
    using a b c d e constantDivisors_nonzero by blast
qed

theorem zero_SEER_division_witness:
  "\<not> useManualInput64 (initialInputs64 \<lparr> currentSEER64 := Dbl False 0 \<rparr>)
   \<and> coolingSystem64 (initialInputs64 \<lparr> currentSEER64 := Dbl False 0 \<rparr>) \<noteq> No_Cooling
   \<and> isZero64 (currentSEER64 (initialInputs64 \<lparr> currentSEER64 := Dbl False 0 \<rparr>))
   \<and> \<not> isFinite64
         (currentCooling64 (calculateCosts64 (initialInputs64 \<lparr> currentSEER64 := Dbl False 0 \<rparr>)))
   \<and> useManualInput64 (manualInputs64 \<lparr> currentSEER64 := Dbl False 0 \<rparr>)
   \<and> isZero64 (currentSEER64 (manualInputs64 \<lparr> currentSEER64 := Dbl False 0 \<rparr>))
   \<and> isFinite64
         (currentCooling64 (calculateCosts64 (manualInputs64 \<lparr> currentSEER64 := Dbl False 0 \<rparr>)))
   \<and> isZero64
         (heatPumpCooling64 (calculateCosts64 (manualInputs64 \<lparr> currentSEER64 := Dbl False 0 \<rparr>)))"
proof -
  have f: "isFinite64
         (currentCooling64 (calculateCosts64 (manualInputs64 \<lparr> currentSEER64 := Dbl False 0 \<rparr>)))"
    by (simp add: calculateCosts64_manual manualCosts64_fields manualInputs64_fields
          parseFloat64_examples or_else64_examples)
  show ?thesis
    using f zero_SEER_division [of "initialInputs64 \<lparr> currentSEER64 := Dbl False 0 \<rparr>" DNaN]
      zero_SEER_division [of "manualInputs64 \<lparr> currentSEER64 := Dbl False 0 \<rparr>" DNaN]
    by (simp add: initialInputs64_fields manualInputs64_fields)
qed

subsection \<open>Monotonicity in the home size\<close>







end
